theory Spec2Isabelle
  imports Main
begin

section \<open>Values and objects of the host page\<close>

text \<open>
  The client scripts only read values that the host framework has already put on the
  page and forward them. A value is one of JavaScript's: \<open>undefined\<close>, \<open>null\<close>, a
  boolean, a number, a string, an array or an object. An object literal keeps the order
  in which its properties are written, so it is an association list. Numbers are never
  computed with here, only passed on.
\<close>

datatype jsval =
    JUndefined
  | JNull
  | JBool bool
  | JNum int
  | JStr string
  | JArr "jsval list"
  | JObj "(string \<times> jsval) list"

text \<open>
  \<open>frm.doc\<close>: reading a property the document does not have gives \<open>undefined\<close>, so
  the document is a total function from property names to values.
\<close>

type_synonym doc = "string \<Rightarrow> jsval"

text \<open>The form object \<open>frm\<close> as far as the handlers use it: \<open>frm.is_new()\<close> and \<open>frm.doc\<close>.\<close>

record frm =
  is_new :: bool
  doc :: doc

text \<open>The object a success callback receives; the handlers read \<open>response.message\<close> only.\<close>

record response =
  message :: jsval

text \<open>
  What the handlers read from the framework's globals: the default company
  \<open>frappe.boot.sysdefaults.company\<close> and the translation function \<open>__\<close>.
\<close>

record host =
  company :: jsval
  translate :: "string \<Rightarrow> string"

section \<open>Effects of a handler\<close>

text \<open>
  A handler is run for the calls it makes into the framework, in order:
  \<open>frappe.msgprint\<close>, \<open>console.log\<close>, \<open>frappe.call\<close> with its options \<open>method\<close> (here \<open>method_name\<close>),
  \<open>args\<close>, \<open>freeze\<close>, \<open>freeze_message\<close>, \<open>callback\<close> and \<open>error\<close> (an option that is
  not written is \<open>False\<close> or \<open>None\<close>), \<open>frm.add_custom_button\<close> (label, group, click
  handler) and \<open>listview.page.add_inner_button\<close> (label, click handler).

  The click handler of a form button reads \<open>frm.doc\<close> when it runs, so it is a function
  of the document at the time of the click. The click handler of a list-view button
  ignores its argument and reads only the company name bound when the list was loaded.
\<close>

datatype effect =
    Msgprint string
  | Console_log string
  | Call (method_name: string) (args: jsval) (freeze: bool) (freeze_message: "string option")
      (callback: "response \<Rightarrow> effect list") (error: "jsval \<Rightarrow> effect list")
  | Add_custom_button string string "doc \<Rightarrow> effect list"
  | Add_inner_button string "effect list"

text \<open>The text \<open>Sending request to eTIMS... Please wait\<close>, whose dots are the one character U+2026 (three bytes in UTF-8).\<close>

definition sending_request :: string where
  "sending_request = ''Sending request to eTIMS'' @ [CHR 0xE2, CHR 0x80, CHR 0xA6] @ '' Please wait''"

section \<open>The handlers\<close>

subsection \<open>etims\_user.js: refresh of the eTims User form\<close>

text \<open>
  Lines 4 to 38. The function is declared \<open>async\<close> but awaits nothing, so it runs to
  its end when called. The company name is read once, when the form is refreshed; the
  document's fields are read when the button is clicked.
\<close>

definition etims_user_refresh :: "host \<Rightarrow> frm \<Rightarrow> effect list" where
  "etims_user_refresh h frm =
    (let companyName = company h in
     if \<not> is_new frm then
       [Add_custom_button (translate h ''Submit Branch User Details'') (translate h ''eTims Actions'')
         (\<lambda>d.
           [Call ''kra_etims_frappe.kra_etims.apis.apis.save_branch_user_details''
             (JObj [(''request_data'', JObj
               [(''name'', d ''name''),
                (''company_name'', companyName),
                (''user_id'', d ''system_user''),
                (''full_names'', d ''users_full_names''),
                (''branch_id'', d ''custom_etims_branch_id''),
                (''registration_id'', d ''owner''),
                (''modifier_id'', d ''modified_by'')])])
             True
             (Some (translate h sending_request))
             (\<lambda>response. [Msgprint ''Request queued. Please check in later.''])
             (\<lambda>r. [])])]
     else [])"

subsection \<open>etims\_registered\_imported\_item\_list.js: load of the imported-items list\<close>

text \<open>Lines 4 to 27.\<close>

definition etims_registered_imported_item_onload :: "host \<Rightarrow> effect list" where
  "etims_registered_imported_item_onload h =
    (let companyName = company h in
     [Add_inner_button (translate h ''Get Imported Items'')
       [Call ''kra_etims_frappe.kra_etims.apis.apis.perform_import_item_search_all_branches''
         (JObj [(''request_data'', JObj [(''company_name'', companyName)])])
         True
         (Some (translate h sending_request))
         (\<lambda>response. [])
         (\<lambda>error. [])]])"

subsection \<open>etims\_registered\_stock\_movement\_list.js: load of the stock-movement list\<close>

text \<open>Lines 4 to 24; the rest of the file is commented out.\<close>

definition etims_registered_stock_movement_onload :: "host \<Rightarrow> effect list" where
  "etims_registered_stock_movement_onload h =
    (let companyName = company h in
     [Add_inner_button (translate h ''Get Stock Movements'')
       [Call ''kra_etims_frappe.kra_etims_frappe.apis.apis.perform_stock_movement_search_all_branches''
         (JObj [(''request_data'', JObj [(''company_name'', companyName)])])
         False
         None
         (\<lambda>response. [])
         (\<lambda>error. [])]])"

subsection \<open>branch\_list.js: the four handlers written in the file\<close>

text \<open>
  The load handler of the Branch list (lines 4 to 24), the refresh handler of the eTims
  Registered Purchases form (lines 30 to 162), the load handler of the eTims Registered
  Purchases list (lines 168 to 189) and the load handler of the eTims User list (lines
  195 to 216). In the refresh handler the whole body, with the validation call of lines
  79 to 111, lies inside \<open>if (!frm.is_new())\<close>; the validation call reads
  \<open>frm.doc.items\<close> when the form is refreshed, and its success callback compares
  \<open>response.message\<close> with \<open>false\<close> by \<open>===\<close>, which holds for the boolean \<open>false\<close>
  only.
\<close>

definition branch_onload :: "host \<Rightarrow> effect list" where
  "branch_onload h =
    (let companyName = company h in
     [Add_inner_button (translate h ''Get Branches'')
       [Call ''kra_etims_frappe.kra_etims_frappe.apis.apis.search_branch_request''
         (JObj [(''request_data'', JObj [(''company_name'', companyName)])])
         False
         None
         (\<lambda>response. [Console_log ''Request queued. Please check in later''])
         (\<lambda>error. [])]])"

definition validate_item_mapped_and_registered :: string where
  "validate_item_mapped_and_registered =
    ''kra_etims_frappe.kra_etims_frappe.doctype.etims_registered_purchases.etims_registered_purchases.validate_item_mapped_and_registered''"

definition etims_registered_purchases_refresh :: "host \<Rightarrow> frm \<Rightarrow> effect list" where
  "etims_registered_purchases_refresh h frm =
    (let companyName = company h in
     if \<not> is_new frm then
       [Add_custom_button (translate h ''Create Supplier'') (translate h ''eTims Actions'')
          (\<lambda>d.
            [Call ''kra_etims_frappe.kra_etims_frappe.apis.apis.create_supplier_from_fetched_registered_purchases''
              (JObj [(''request_data'', JObj
                [(''name'', d ''name''),
                 (''company_name'', companyName),
                 (''supplier_name'', d ''supplier_name''),
                 (''supplier_pin'', d ''supplier_pin''),
                 (''supplier_branch_id'', d ''supplier_branch_id'')])])
              False
              None
              (\<lambda>response. [])
              (\<lambda>error. [])]),
        Call validate_item_mapped_and_registered
          (JObj [(''items'', doc frm ''items'')])
          False
          None
          (\<lambda>response.
            if message response = JBool False then
              [Add_custom_button (translate h ''Create Items'') (translate h ''eTims Actions'')
                (\<lambda>d.
                  [Call ''kra_etims_frappe.kra_etims_frappe.apis.apis.create_items_from_fetched_registered_purchases''
                    (JObj [(''request_data'', JObj
                      [(''name'', d ''name''),
                       (''company_name'', companyName),
                       (''items'', d ''items'')])])
                    False
                    None
                    (\<lambda>response. [])
                    (\<lambda>error. [])])]
            else [])
          (\<lambda>error. [Msgprint (translate h ''Failed to validate items.'')]),
        Add_custom_button (translate h ''Create Purchase Invoice'') (translate h ''eTims Actions'')
          (\<lambda>d.
            [Call ''kra_etims_frappe.kra_etims_frappe.apis.apis.create_purchase_invoice_from_request''
              (JObj [(''request_data'', JObj
                [(''name'', d ''name''),
                 (''company_name'', companyName),
                 (''supplier_name'', d ''supplier_name''),
                 (''supplier_pin'', d ''supplier_pin''),
                 (''supplier_branch_id'', d ''supplier_branch_id''),
                 (''supplier_invoice_no'', d ''supplier_invoice_number''),
                 (''supplier_invoice_date'', d ''sales_date''),
                 (''items'', d ''items'')])])
              False
              None
              (\<lambda>response. [])
              (\<lambda>error. [])])]
     else [])"

definition etims_registered_purchases_onload :: "host \<Rightarrow> effect list" where
  "etims_registered_purchases_onload h =
    (let companyName = company h in
     [Add_inner_button (translate h ''Get Raised Purchases'')
       [Call ''kra_etims_frappe.kra_etims_frappe.apis.apis.perform_purchases_search_all_branches''
         (JObj [(''request_data'', JObj [(''company_name'', companyName)])])
         False
         None
         (\<lambda>response. [])
         (\<lambda>error. [])]])"

definition etims_user_onload :: "host \<Rightarrow> effect list" where
  "etims_user_onload h =
    (let companyName = company h in
     [Add_inner_button (translate h ''Create from Current System Users'')
       [Call ''kra_etims_frappe.kra_etims_frappe.apis.apis.create_branch_user''
         (JObj [(''request_data'', JObj [(''company_name'', companyName)])])
         False
         None
         (\<lambda>response. [])
         (\<lambda>error. [])]])"

section \<open>Loading a script file\<close>

text \<open>
  Each source file is a script: a sequence of top-level statements of three shapes,
  \<^item> \<open>const x = "literal";\<close>
  \<^item> \<open>frappe.listview_settings[x] = { onload: f };\<close>
  \<^item> \<open>frappe.ui.form.on(x, { refresh: f });\<close>

  where \<open>x\<close> is an identifier read from the script's scope when the statement runs.
  The statements of branch\_list.js are at its lines 1, 3, 27, 29, 165, 167, 192 and 194.
  Every file is loaded on its own, into a scope of its own.
\<close>

datatype statement =
    Const string string
  | Listview_settings string "host \<Rightarrow> effect list"
  | Form_on string "host \<Rightarrow> frm \<Rightarrow> effect list"

definition etims_user_js :: "statement list" where
  "etims_user_js =
    [Const ''doctypeName'' ''eTims User'',
     Form_on ''doctypeName'' etims_user_refresh]"

definition etims_registered_imported_item_list_js :: "statement list" where
  "etims_registered_imported_item_list_js =
    [Const ''doctypeName'' ''eTims Registered Imported Item'',
     Listview_settings ''doctypeName'' etims_registered_imported_item_onload]"

definition etims_registered_stock_movement_list_js :: "statement list" where
  "etims_registered_stock_movement_list_js =
    [Const ''doctypeName'' ''eTims Registered Stock Movement'',
     Listview_settings ''doctypeName'' etims_registered_stock_movement_onload]"

definition branch_list_js :: "statement list" where
  "branch_list_js =
    [Const ''doctypeName'' ''Branch'',
     Listview_settings ''doctypeName'' branch_onload,
     Const ''doctypeName'' ''eTims Registered Purchases'',
     Form_on ''doctypeName'' etims_registered_purchases_refresh,
     Const ''doctypeName'' ''eTims Registered Purchases'',
     Listview_settings ''doctypeName'' etims_registered_purchases_onload,
     Const ''doctypeName'' ''eTims User'',
     Listview_settings ''doctypeName'' etims_user_onload]"

text \<open>
  What the framework holds after scripts have run: \<open>frappe.listview_settings\<close>, an
  object indexed by doctype name (an assignment replaces the entry), and the handlers
  registered with \<open>frappe.ui.form.on\<close> (a registration is added to the earlier ones).
\<close>

record registry =
  listview_settings :: "string \<rightharpoonup> (host \<Rightarrow> effect list)"
  form_events :: "(string \<times> (host \<Rightarrow> frm \<Rightarrow> effect list)) list"

datatype js_error = SyntaxError string | ReferenceError string

text \<open>
  JavaScript checks a script before running any of it: two lexical declarations
  (\<open>const\<close>, \<open>let\<close>, \<open>class\<close>) of one name in one scope are an early error, a
  \<open>SyntaxError\<close> raised when the script is parsed, and then no statement of it runs.
\<close>

fun lexically_declared_names :: "statement list \<Rightarrow> string list" where
  "lexically_declared_names [] = []"
| "lexically_declared_names (Const x v # ss) = x # lexically_declared_names ss"
| "lexically_declared_names (Listview_settings x f # ss) = lexically_declared_names ss"
| "lexically_declared_names (Form_on x f # ss) = lexically_declared_names ss"

fun redeclared :: "string list \<Rightarrow> string option" where
  "redeclared [] = None"
| "redeclared (x # xs) = (if x \<in> set xs then Some x else redeclared xs)"

text \<open>
  Running one statement in the script's scope. A \<open>const\<close> binds its name from then on;
  reading a name that is not bound yet is a \<open>ReferenceError\<close>.
\<close>

fun exec :: "statement \<Rightarrow> (string \<rightharpoonup> string) \<times> registry \<Rightarrow> js_error + (string \<rightharpoonup> string) \<times> registry" where
  "exec (Const x v) (scope, reg) = Inr (scope(x \<mapsto> v), reg)"
| "exec (Listview_settings x f) (scope, reg) =
    (case scope x of
       None \<Rightarrow> Inl (ReferenceError x)
     | Some doctype \<Rightarrow> Inr (scope, reg\<lparr>listview_settings := (listview_settings reg)(doctype \<mapsto> f)\<rparr>))"
| "exec (Form_on x f) (scope, reg) =
    (case scope x of
       None \<Rightarrow> Inl (ReferenceError x)
     | Some doctype \<Rightarrow> Inr (scope, reg\<lparr>form_events := form_events reg @ [(doctype, f)]\<rparr>))"

text \<open>Statements run in order; an error stops the script and keeps what ran before it.\<close>

fun run :: "statement list \<Rightarrow> (string \<rightharpoonup> string) \<times> registry \<Rightarrow> js_error option \<times> registry" where
  "run [] (scope, reg) = (None, reg)"
| "run (s # ss) (scope, reg) =
    (case exec s (scope, reg) of
       Inl e \<Rightarrow> (Some e, reg)
     | Inr st \<Rightarrow> run ss st)"

definition load_script :: "statement list \<Rightarrow> registry \<Rightarrow> js_error option \<times> registry" where
  "load_script script reg =
    (case redeclared (lexically_declared_names script) of
       Some x \<Rightarrow> (Some (SyntaxError x), reg)
     | None \<Rightarrow> run script (Map.empty, reg))"

definition no_handlers :: registry where
  "no_handlers = \<lparr>listview_settings = Map.empty, form_events = []\<rparr>"

section \<open>Observing a handler\<close>

text \<open>The remote calls a list of effects makes itself: method and arguments, in order.\<close>

fun remote_calls :: "effect list \<Rightarrow> (string \<times> jsval) list" where
  "remote_calls [] = []"
| "remote_calls (Call m a fr fm cb er # es) = (m, a) # remote_calls es"
| "remote_calls (Msgprint s # es) = remote_calls es"
| "remote_calls (Console_log s # es) = remote_calls es"
| "remote_calls (Add_custom_button l g f # es) = remote_calls es"
| "remote_calls (Add_inner_button l f # es) = remote_calls es"

text \<open>The messages shown to the user, and the lines written to the browser console.\<close>

fun messages :: "effect list \<Rightarrow> string list" where
  "messages [] = []"
| "messages (Msgprint s # es) = s # messages es"
| "messages (Call m a fr fm cb er # es) = messages es"
| "messages (Console_log s # es) = messages es"
| "messages (Add_custom_button l g f # es) = messages es"
| "messages (Add_inner_button l f # es) = messages es"

fun console_lines :: "effect list \<Rightarrow> string list" where
  "console_lines [] = []"
| "console_lines (Console_log s # es) = s # console_lines es"
| "console_lines (Msgprint s # es) = console_lines es"
| "console_lines (Call m a fr fm cb er # es) = console_lines es"
| "console_lines (Add_custom_button l g f # es) = console_lines es"
| "console_lines (Add_inner_button l f # es) = console_lines es"

text \<open>The labels of the buttons a list of effects adds to a form.\<close>

fun custom_buttons :: "effect list \<Rightarrow> string list" where
  "custom_buttons [] = []"
| "custom_buttons (Add_custom_button l g f # es) = l # custom_buttons es"
| "custom_buttons (Msgprint s # es) = custom_buttons es"
| "custom_buttons (Console_log s # es) = custom_buttons es"
| "custom_buttons (Call m a fr fm cb er # es) = custom_buttons es"
| "custom_buttons (Add_inner_button l f # es) = custom_buttons es"

text \<open>
  Clicking a button: the effects of its click handler, for a form button with the
  document as it is at the click. An effect that is no button cannot be clicked.
\<close>

fun click :: "effect \<Rightarrow> doc \<Rightarrow> effect list option" where
  "click (Add_custom_button l g f) d = Some (f d)"
| "click (Add_inner_button l es) d = Some es"
| "click (Msgprint s) d = None"
| "click (Console_log s) d = None"
| "click (Call m a fr fm cb er) d = None"

text \<open>Clicking the first button with a given label, if there is one.\<close>

fun click_button :: "string \<Rightarrow> doc \<Rightarrow> effect list \<Rightarrow> effect list option" where
  "click_button l d [] = None"
| "click_button l d (Add_custom_button l' g f # es) =
    (if l' = l then Some (f d) else click_button l d es)"
| "click_button l d (Add_inner_button l' ces # es) =
    (if l' = l then Some ces else click_button l d es)"
| "click_button l d (Msgprint s # es) = click_button l d es"
| "click_button l d (Console_log s # es) = click_button l d es"
| "click_button l d (Call m a fr fm cb er # es) = click_button l d es"

text \<open>
  The form buttons a list of effects adds, each with its label and the remote calls one
  click on it makes when the document is \<open>d\<close>; and the same for list-view buttons.
\<close>

fun form_buttons :: "doc \<Rightarrow> effect list \<Rightarrow> (string \<times> (string \<times> jsval) list) list" where
  "form_buttons d [] = []"
| "form_buttons d (Add_custom_button l g f # es) = (l, remote_calls (f d)) # form_buttons d es"
| "form_buttons d (Add_inner_button l ces # es) = form_buttons d es"
| "form_buttons d (Msgprint s # es) = form_buttons d es"
| "form_buttons d (Console_log s # es) = form_buttons d es"
| "form_buttons d (Call m a fr fm cb er # es) = form_buttons d es"

fun list_buttons :: "effect list \<Rightarrow> (string \<times> (string \<times> jsval) list) list" where
  "list_buttons [] = []"
| "list_buttons (Add_inner_button l ces # es) = (l, remote_calls ces) # list_buttons es"
| "list_buttons (Add_custom_button l g f # es) = list_buttons es"
| "list_buttons (Msgprint s # es) = list_buttons es"
| "list_buttons (Console_log s # es) = list_buttons es"
| "list_buttons (Call m a fr fm cb er # es) = list_buttons es"

fun is_button :: "effect \<Rightarrow> bool" where
  "is_button (Add_custom_button l g f) = True"
| "is_button (Add_inner_button l ces) = True"
| "is_button (Msgprint s) = False"
| "is_button (Console_log s) = False"
| "is_button (Call m a fr fm cb er) = False"

fun is_call :: "effect \<Rightarrow> bool" where
  "is_call (Call m a fr fm cb er) = True"
| "is_call (Msgprint s) = False"
| "is_call (Console_log s) = False"
| "is_call (Add_custom_button l g f) = False"
| "is_call (Add_inner_button l ces) = False"

text \<open>The property names of the \<open>request_data\<close> object, when the arguments are \<open>{request_data: {...}}\<close>.\<close>

fun request_data_fields :: "jsval \<Rightarrow> string list option" where
  "request_data_fields (JObj [(k, JObj kvs)]) =
    (if k = ''request_data'' then Some (map fst kvs) else None)"
| "request_data_fields _ = None"

text \<open>
  The server's answer to the first call of a method: the effects of its success
  callback on a response, and of its error callback on an error object.
\<close>

fun on_success :: "string \<Rightarrow> response \<Rightarrow> effect list \<Rightarrow> effect list option" where
  "on_success m r [] = None"
| "on_success m r (Call m' a fr fm cb er # es) =
    (if m' = m then Some (cb r) else on_success m r es)"
| "on_success m r (Msgprint s # es) = on_success m r es"
| "on_success m r (Console_log s # es) = on_success m r es"
| "on_success m r (Add_custom_button l g f # es) = on_success m r es"
| "on_success m r (Add_inner_button l f # es) = on_success m r es"

fun on_error :: "string \<Rightarrow> jsval \<Rightarrow> effect list \<Rightarrow> effect list option" where
  "on_error m x [] = None"
| "on_error m x (Call m' a fr fm cb er # es) =
    (if m' = m then Some (er x) else on_error m x es)"
| "on_error m x (Msgprint s # es) = on_error m x es"
| "on_error m x (Console_log s # es) = on_error m x es"
| "on_error m x (Add_custom_button l g f # es) = on_error m x es"
| "on_error m x (Add_inner_button l f # es) = on_error m x es"

text \<open>
  Everything that can come after an effect: the effects of a click on a button it
  added (with any document), and those of the success or error callback of a call it
  made (with any response or error object).
\<close>

inductive follows :: "effect \<Rightarrow> effect \<Rightarrow> bool" where
  clicked_custom: "e \<in> set (f d) \<Longrightarrow> follows (Add_custom_button l g f) e"
| clicked_inner: "e \<in> set es \<Longrightarrow> follows (Add_inner_button l es) e"
| succeeded: "e \<in> set (cb r) \<Longrightarrow> follows (Call m a fr fm cb er) e"
| failed: "e \<in> set (er x) \<Longrightarrow> follows (Call m a fr fm cb er) e"

text \<open>
  The effects that can ever arise from a handler's run: its own, and all that follow
  from them in any number of clicks and answers.
\<close>

definition arises :: "effect list \<Rightarrow> effect \<Rightarrow> bool" where
  "arises es e \<longleftrightarrow> (\<exists>e0 \<in> set es. follows\<^sup>*\<^sup>* e0 e)"

text \<open>The handlers written in the four source files: two for forms, five for list views.\<close>

definition form_refreshes :: "(host \<Rightarrow> frm \<Rightarrow> effect list) list" where
  "form_refreshes = [etims_user_refresh, etims_registered_purchases_refresh]"

definition listview_onloads :: "(host \<Rightarrow> effect list) list" where
  "listview_onloads =
    [etims_registered_imported_item_onload,
     etims_registered_stock_movement_onload,
     branch_onload,
     etims_registered_purchases_onload,
     etims_user_onload]"

text \<open>The runs of the seven handlers, for a host and a form.\<close>

definition handlers :: "host \<Rightarrow> frm \<Rightarrow> effect list list" where
  "handlers h frm =
    [etims_user_refresh h frm,
     etims_registered_imported_item_onload h,
     etims_registered_stock_movement_onload h,
     branch_onload h,
     etims_registered_purchases_refresh h frm,
     etims_registered_purchases_onload h,
     etims_user_onload h]"

section \<open>The external-interface table of the specification\<close>

text \<open>
  The table of section 6 of the specification, written from its words: for each
  endpoint the payload fields, in the table's order. The rows are, in order: submit
  branch user details; import items search (all branches); search branch request; create
  supplier from fetched purchases; validate item mapped and registered; create items
  from fetched purchases; create purchase invoice from request; search purchases (all
  branches); create branch user (bulk); search stock movement (all branches). Each is
  keyed by the method name its endpoint has in the code.
\<close>

definition interface_table :: "(string \<times> string list) list" where
  "interface_table =
    [(''kra_etims_frappe.kra_etims.apis.apis.save_branch_user_details'',
        [''name'', ''company_name'', ''user_id'', ''full_names'', ''branch_id'',
         ''registration_id'', ''modifier_id'']),
     (''kra_etims_frappe.kra_etims.apis.apis.perform_import_item_search_all_branches'',
        [''company_name'']),
     (''kra_etims_frappe.kra_etims_frappe.apis.apis.search_branch_request'',
        [''company_name'']),
     (''kra_etims_frappe.kra_etims_frappe.apis.apis.create_supplier_from_fetched_registered_purchases'',
        [''name'', ''company_name'', ''supplier_name'', ''supplier_pin'', ''supplier_branch_id'']),
     (validate_item_mapped_and_registered,
        [''items'']),
     (''kra_etims_frappe.kra_etims_frappe.apis.apis.create_items_from_fetched_registered_purchases'',
        [''name'', ''company_name'', ''items'']),
     (''kra_etims_frappe.kra_etims_frappe.apis.apis.create_purchase_invoice_from_request'',
        [''name'', ''company_name'', ''supplier_name'', ''supplier_pin'', ''supplier_branch_id'',
         ''supplier_invoice_no'', ''supplier_invoice_date'', ''items'']),
     (''kra_etims_frappe.kra_etims_frappe.apis.apis.perform_purchases_search_all_branches'',
        [''company_name'']),
     (''kra_etims_frappe.kra_etims_frappe.apis.apis.create_branch_user'',
        [''company_name'']),
     (''kra_etims_frappe.kra_etims_frappe.apis.apis.perform_stock_movement_search_all_branches'',
        [''company_name''])]"

text \<open>
  A button issues one call, shaped as the table says: there are an endpoint and its row
  of the table, fixed when the button is added, such that a click with any document makes
  exactly one remote call, to that endpoint, whose \<open>request_data\<close> has exactly the
  fields of the row.
\<close>

definition issues_one_call :: "effect \<Rightarrow> bool" where
  "issues_one_call b \<longleftrightarrow>
    (\<exists>m row. map_of interface_table m = Some row \<and>
      (\<forall>d. \<exists>a. map_option remote_calls (click b d) = Some [(m, a)]
                \<and> request_data_fields a = Some row))"

section \<open>A concrete page\<close>

text \<open>A host, documents and answers on which the handlers are run in examples.\<close>

definition sample_host :: host where
  "sample_host = \<lparr>company = JStr ''Acme Ltd'', translate = id\<rparr>"

definition no_doc :: doc where
  "no_doc = (\<lambda>k. JUndefined)"

definition sample_items :: jsval where
  "sample_items = JArr [JObj [(''item_name'', JStr ''Bolt''), (''quantity'', JNum 4)]]"

definition sample_user_doc :: doc where
  "sample_user_doc = no_doc
    (''name'' := JStr ''USR-0001'',
     ''system_user'' := JStr ''jane@example.com'',
     ''users_full_names'' := JStr ''Jane Doe'',
     ''custom_etims_branch_id'' := JStr ''00'',
     ''owner'' := JStr ''Administrator'',
     ''modified_by'' := JStr ''jane@example.com'')"

definition sample_purchase_doc :: doc where
  "sample_purchase_doc = no_doc
    (''name'' := JStr ''PUR-0001'',
     ''supplier_name'' := JStr ''Bolts Ltd'',
     ''supplier_pin'' := JStr ''P000000001A'',
     ''supplier_branch_id'' := JStr ''01'',
     ''supplier_invoice_number'' := JNum 17,
     ''sales_date'' := JStr ''2024-05-01'',
     ''items'' := sample_items)"

definition saved_user_form :: frm where
  "saved_user_form = \<lparr>is_new = False, doc = sample_user_doc\<rparr>"

definition saved_purchase_form :: frm where
  "saved_purchase_form = \<lparr>is_new = False, doc = sample_purchase_doc\<rparr>"

definition new_form :: frm where
  "new_form = \<lparr>is_new = True, doc = no_doc\<rparr>"

text \<open>The effects of a click on the button with a given label (none if there is no such button).\<close>

definition clicked :: "string \<Rightarrow> doc \<Rightarrow> effect list \<Rightarrow> effect list" where
  "clicked l d es = (case click_button l d es of None \<Rightarrow> [] | Some ces \<Rightarrow> ces)"

text \<open>
  Calls of the concrete page: the validation call made when the saved purchase form is
  refreshed; the call of the Create Items button, which the validation call's answer
  \<open>false\<close> adds; the calls of the Submit Branch User Details and Get Stock Movements
  buttons.
\<close>

definition validation_call :: effect where
  "validation_call = etims_registered_purchases_refresh sample_host saved_purchase_form ! 1"

definition create_items_button :: effect where
  "create_items_button = callback validation_call \<lparr>message = JBool False\<rparr> ! 0"

definition create_items_call :: effect where
  "create_items_call =
    clicked ''Create Items'' sample_purchase_doc
      (callback validation_call \<lparr>message = JBool False\<rparr>) ! 0"

definition submit_call :: effect where
  "submit_call =
    clicked ''Submit Branch User Details'' sample_user_doc
      (etims_user_refresh sample_host saved_user_form) ! 0"

definition stock_movements_call :: effect where
  "stock_movements_call =
    clicked ''Get Stock Movements'' no_doc (etims_registered_stock_movement_onload sample_host) ! 0"

section \<open>What can follow an effect\<close>

inductive_simps follows_Msgprint: "follows (Msgprint s) e"
inductive_simps follows_Console_log: "follows (Console_log s) e"
inductive_simps follows_Call: "follows (Call m a fr fm cb er) e"
inductive_simps follows_custom_button: "follows (Add_custom_button l g f) e"
inductive_simps follows_inner_button: "follows (Add_inner_button l ces) e"

lemma reach_step:
  "follows\<^sup>*\<^sup>* e0 e \<longleftrightarrow> e = e0 \<or> (\<exists>e1. follows e0 e1 \<and> follows\<^sup>*\<^sup>* e1 e)"
  by (metis converse_rtranclpE converse_rtranclp_into_rtranclp rtranclp.rtrancl_refl)

lemma reach_Msgprint: "follows\<^sup>*\<^sup>* (Msgprint s) e \<longleftrightarrow> e = Msgprint s"
  by (subst reach_step) (simp add: follows_Msgprint)

lemma reach_Console_log: "follows\<^sup>*\<^sup>* (Console_log s) e \<longleftrightarrow> e = Console_log s"
  by (subst reach_step) (simp add: follows_Console_log)

lemma reach_Call:
  "follows\<^sup>*\<^sup>* (Call m a fr fm cb er) e \<longleftrightarrow>
     e = Call m a fr fm cb er
     \<or> (\<exists>r. \<exists>e1 \<in> set (cb r). follows\<^sup>*\<^sup>* e1 e)
     \<or> (\<exists>x. \<exists>e1 \<in> set (er x). follows\<^sup>*\<^sup>* e1 e)"
  by (subst reach_step) (auto simp add: follows_Call)

lemma reach_custom_button:
  "follows\<^sup>*\<^sup>* (Add_custom_button l g f) e \<longleftrightarrow>
     e = Add_custom_button l g f \<or> (\<exists>d. \<exists>e1 \<in> set (f d). follows\<^sup>*\<^sup>* e1 e)"
  by (subst reach_step) (auto simp add: follows_custom_button)

lemma reach_inner_button:
  "follows\<^sup>*\<^sup>* (Add_inner_button l ces) e \<longleftrightarrow>
     e = Add_inner_button l ces \<or> (\<exists>e1 \<in> set ces. follows\<^sup>*\<^sup>* e1 e)"
  by (subst reach_step) (auto simp add: follows_inner_button)

lemmas reach =
  reach_Msgprint reach_Console_log reach_Call reach_custom_button reach_inner_button

lemma arises_own: "e \<in> set es \<Longrightarrow> arises es e"
  by (auto simp add: arises_def)

section \<open>Loading the four files\<close>

text \<open>
  The three files with one declaration of \<open>doctypeName\<close> load, each into a scope of
  its own, and register their handler under the doctype's name.
\<close>

lemma etims_user_js_loads:
  "load_script etims_user_js no_handlers =
    (None, \<lparr>listview_settings = Map.empty, form_events = [(''eTims User'', etims_user_refresh)]\<rparr>)"
  by (simp add: load_script_def etims_user_js_def no_handlers_def)

lemma etims_registered_imported_item_list_js_loads:
  "load_script etims_registered_imported_item_list_js no_handlers =
    (None, \<lparr>listview_settings =
        [''eTims Registered Imported Item'' \<mapsto> etims_registered_imported_item_onload],
      form_events = []\<rparr>)"
  by (simp add: load_script_def etims_registered_imported_item_list_js_def no_handlers_def)

lemma etims_registered_stock_movement_list_js_loads:
  "load_script etims_registered_stock_movement_list_js no_handlers =
    (None, \<lparr>listview_settings =
        [''eTims Registered Stock Movement'' \<mapsto> etims_registered_stock_movement_onload],
      form_events = []\<rparr>)"
  by (simp add: load_script_def etims_registered_stock_movement_list_js_def no_handlers_def)

text \<open>
  The first two statements of branch\_list.js, taken alone, would load and register the
  Branch list handler: it is the second declaration of the name that stops the file.
\<close>

lemma branch_list_js_first_part_loads:
  "load_script (take 2 branch_list_js) no_handlers =
    (None, \<lparr>listview_settings = [''Branch'' \<mapsto> branch_onload], form_events = []\<rparr>)"
  by (simp add: load_script_def branch_list_js_def no_handlers_def)

text \<open>
  After the four files have been loaded, the framework holds the handlers of the three
  other files and none of branch\_list.js: the eTims Registered Purchases form and list,
  the Branch list and the eTims User list have no handler.
\<close>

lemma handlers_after_loading:
  "snd (load_script branch_list_js
     (snd (load_script etims_registered_stock_movement_list_js
       (snd (load_script etims_registered_imported_item_list_js
         (snd (load_script etims_user_js no_handlers))))))) =
    \<lparr>listview_settings =
        [''eTims Registered Imported Item'' \<mapsto> etims_registered_imported_item_onload,
         ''eTims Registered Stock Movement'' \<mapsto> etims_registered_stock_movement_onload],
      form_events = [(''eTims User'', etims_user_refresh)]\<rparr>"
  by (simp add: load_script_def etims_user_js_def etims_registered_imported_item_list_js_def
      etims_registered_stock_movement_list_js_def branch_list_js_def no_handlers_def)

text \<open>
  C1. Loading branch\_list.js fails before any handler is registered. The file declares
  \<open>const doctypeName\<close> four times in one scope, a redeclaration error found when the
  script is parsed, so none of its statements runs: whatever the framework held before
  the load, it holds after it, and the Branch list button, the eTims Registered Purchases
  form buttons, the Get Raised Purchases list button and the Create from Current System
  Users list button of the file are never attached.
\<close>

theorem branch_list_js_fails_to_load:
  "lexically_declared_names branch_list_js =
      [''doctypeName'', ''doctypeName'', ''doctypeName'', ''doctypeName'']
   \<and> load_script branch_list_js reg = (Some (SyntaxError ''doctypeName''), reg)"
  by (simp add: load_script_def branch_list_js_def)

theorem branch_list_js_fails_to_load_witness:
  "load_script branch_list_js no_handlers = (Some (SyntaxError ''doctypeName''), no_handlers)
   \<and> listview_settings (snd (load_script branch_list_js no_handlers)) ''Branch'' = None
   \<and> listview_settings (snd (load_script branch_list_js no_handlers)) ''eTims Registered Purchases'' = None
   \<and> listview_settings (snd (load_script branch_list_js no_handlers)) ''eTims User'' = None
   \<and> form_events (snd (load_script branch_list_js no_handlers)) = []"
  using branch_list_js_fails_to_load [of no_handlers]
  by (simp add: no_handlers_def)

section \<open>The calls that arise from each handler\<close>

lemma calls_etims_user_refresh:
  assumes "arises (etims_user_refresh h frm) (Call m a fr fm cb er)"
  shows "m = ''kra_etims_frappe.kra_etims.apis.apis.save_branch_user_details''
    \<and> cb = (\<lambda>r. [Msgprint ''Request queued. Please check in later.''])
    \<and> er = (\<lambda>x. [])"
  using assms
  by (auto simp add: arises_def etims_user_refresh_def Let_def reach split: if_splits)

lemma calls_etims_registered_imported_item_onload:
  assumes "arises (etims_registered_imported_item_onload h) (Call m a fr fm cb er)"
  shows "m = ''kra_etims_frappe.kra_etims.apis.apis.perform_import_item_search_all_branches''
    \<and> cb = (\<lambda>r. []) \<and> er = (\<lambda>x. [])"
  using assms
  by (auto simp add: arises_def etims_registered_imported_item_onload_def Let_def reach)

lemma calls_etims_registered_stock_movement_onload:
  assumes "arises (etims_registered_stock_movement_onload h) (Call m a fr fm cb er)"
  shows "m = ''kra_etims_frappe.kra_etims_frappe.apis.apis.perform_stock_movement_search_all_branches''
    \<and> cb = (\<lambda>r. []) \<and> er = (\<lambda>x. [])"
  using assms
  by (auto simp add: arises_def etims_registered_stock_movement_onload_def Let_def reach)

lemma calls_branch_onload:
  assumes "arises (branch_onload h) (Call m a fr fm cb er)"
  shows "m = ''kra_etims_frappe.kra_etims_frappe.apis.apis.search_branch_request''
    \<and> cb = (\<lambda>r. [Console_log ''Request queued. Please check in later''])
    \<and> er = (\<lambda>x. [])"
  using assms
  by (auto simp add: arises_def branch_onload_def Let_def reach)

lemma calls_etims_registered_purchases_onload:
  assumes "arises (etims_registered_purchases_onload h) (Call m a fr fm cb er)"
  shows "m = ''kra_etims_frappe.kra_etims_frappe.apis.apis.perform_purchases_search_all_branches''
    \<and> cb = (\<lambda>r. []) \<and> er = (\<lambda>x. [])"
  using assms
  by (auto simp add: arises_def etims_registered_purchases_onload_def Let_def reach)

lemma calls_etims_user_onload:
  assumes "arises (etims_user_onload h) (Call m a fr fm cb er)"
  shows "m = ''kra_etims_frappe.kra_etims_frappe.apis.apis.create_branch_user''
    \<and> cb = (\<lambda>r. []) \<and> er = (\<lambda>x. [])"
  using assms
  by (auto simp add: arises_def etims_user_onload_def Let_def reach)

lemma calls_etims_registered_purchases_refresh:
  assumes "arises (etims_registered_purchases_refresh h frm) (Call m a fr fm cb er)"
  shows "(m = validate_item_mapped_and_registered
      \<and> er = (\<lambda>x. [Msgprint (translate h ''Failed to validate items.'')])
      \<and> (\<forall>r. remote_calls (cb r) = [] \<and> messages (cb r) = [] \<and> console_lines (cb r) = []))
    \<or> ((m = ''kra_etims_frappe.kra_etims_frappe.apis.apis.create_supplier_from_fetched_registered_purchases''
        \<or> m = ''kra_etims_frappe.kra_etims_frappe.apis.apis.create_items_from_fetched_registered_purchases''
        \<or> m = ''kra_etims_frappe.kra_etims_frappe.apis.apis.create_purchase_invoice_from_request'')
      \<and> cb = (\<lambda>r. []) \<and> er = (\<lambda>x. []))"
  using assms
  by (auto simp add: arises_def etims_registered_purchases_refresh_def Let_def reach
      split: if_splits)

text \<open>The method names are distinct where the callbacks differ.\<close>

lemma acknowledged_methods_distinct:
  "''kra_etims_frappe.kra_etims.apis.apis.save_branch_user_details'' \<noteq> validate_item_mapped_and_registered"
  "''kra_etims_frappe.kra_etims_frappe.apis.apis.search_branch_request'' \<noteq> validate_item_mapped_and_registered"
  "''kra_etims_frappe.kra_etims_frappe.apis.apis.search_branch_request'' \<noteq>
    ''kra_etims_frappe.kra_etims.apis.apis.save_branch_user_details''"
  "''kra_etims_frappe.kra_etims.apis.apis.save_branch_user_details'' \<noteq>
    ''kra_etims_frappe.kra_etims_frappe.apis.apis.search_branch_request''"
  by (simp_all add: validate_item_mapped_and_registered_def)

text \<open>
  Every call that can arise from a handler, with its two callbacks: the validation call
  of the purchases form, the two calls whose success is acknowledged, or one of the seven
  other calls.
\<close>

lemma arising_call_cases [consumes 2, case_names validation save_details search_branch other]:
  assumes "es \<in> set (handlers h frm)"
    and "arises es (Call m a fr fm cb er)"
  obtains
    (validation) "m = validate_item_mapped_and_registered"
      "er = (\<lambda>x. [Msgprint (translate h ''Failed to validate items.'')])"
      "\<And>r. remote_calls (cb r) = []" "\<And>r. messages (cb r) = []"
      "\<And>r. console_lines (cb r) = []"
  | (save_details) "m = ''kra_etims_frappe.kra_etims.apis.apis.save_branch_user_details''"
      "cb = (\<lambda>r. [Msgprint ''Request queued. Please check in later.''])"
      "er = (\<lambda>x. [])"
  | (search_branch) "m = ''kra_etims_frappe.kra_etims_frappe.apis.apis.search_branch_request''"
      "cb = (\<lambda>r. [Console_log ''Request queued. Please check in later''])"
      "er = (\<lambda>x. [])"
  | (other) "m \<noteq> validate_item_mapped_and_registered"
      "m \<noteq> ''kra_etims_frappe.kra_etims.apis.apis.save_branch_user_details''"
      "m \<noteq> ''kra_etims_frappe.kra_etims_frappe.apis.apis.search_branch_request''"
      "cb = (\<lambda>r. [])" "er = (\<lambda>x. [])"
proof -
  from assms(1) have "es = etims_user_refresh h frm
      \<or> es = etims_registered_imported_item_onload h
      \<or> es = etims_registered_stock_movement_onload h
      \<or> es = branch_onload h
      \<or> es = etims_registered_purchases_refresh h frm
      \<or> es = etims_registered_purchases_onload h
      \<or> es = etims_user_onload h"
    unfolding handlers_def by simp
  then consider
      (user_form) "arises (etims_user_refresh h frm) (Call m a fr fm cb er)"
    | (imported) "arises (etims_registered_imported_item_onload h) (Call m a fr fm cb er)"
    | (stock) "arises (etims_registered_stock_movement_onload h) (Call m a fr fm cb er)"
    | (branch) "arises (branch_onload h) (Call m a fr fm cb er)"
    | (purchase_form) "arises (etims_registered_purchases_refresh h frm) (Call m a fr fm cb er)"
    | (purchases) "arises (etims_registered_purchases_onload h) (Call m a fr fm cb er)"
    | (users) "arises (etims_user_onload h) (Call m a fr fm cb er)"
    using assms(2) by blast
  then show thesis
  proof cases
    case user_form
    from calls_etims_user_refresh [OF this] show thesis
      by (intro save_details) simp_all
  next
    case imported
    from calls_etims_registered_imported_item_onload [OF this] show thesis
      by (intro other) (simp_all add: validate_item_mapped_and_registered_def)
  next
    case stock
    from calls_etims_registered_stock_movement_onload [OF this] show thesis
      by (intro other) (simp_all add: validate_item_mapped_and_registered_def)
  next
    case branch
    from calls_branch_onload [OF this] show thesis
      by (intro search_branch) simp_all
  next
    case purchase_form
    from calls_etims_registered_purchases_refresh [OF this] show thesis
    proof (elim disjE conjE)
      assume "m = validate_item_mapped_and_registered"
        "er = (\<lambda>x. [Msgprint (translate h ''Failed to validate items.'')])"
        "\<forall>r. remote_calls (cb r) = [] \<and> messages (cb r) = [] \<and> console_lines (cb r) = []"
      then show thesis by (intro validation) simp_all
    next
      assume "m = ''kra_etims_frappe.kra_etims_frappe.apis.apis.create_supplier_from_fetched_registered_purchases''"
        "cb = (\<lambda>r. [])" "er = (\<lambda>x. [])"
      then show thesis
        by (intro other) (simp_all add: validate_item_mapped_and_registered_def)
    next
      assume "m = ''kra_etims_frappe.kra_etims_frappe.apis.apis.create_items_from_fetched_registered_purchases''"
        "cb = (\<lambda>r. [])" "er = (\<lambda>x. [])"
      then show thesis
        by (intro other) (simp_all add: validate_item_mapped_and_registered_def)
    next
      assume "m = ''kra_etims_frappe.kra_etims_frappe.apis.apis.create_purchase_invoice_from_request''"
        "cb = (\<lambda>r. [])" "er = (\<lambda>x. [])"
      then show thesis
        by (intro other) (simp_all add: validate_item_mapped_and_registered_def)
    qed
  next
    case purchases
    from calls_etims_registered_purchases_onload [OF this] show thesis
      by (intro other) (simp_all add: validate_item_mapped_and_registered_def)
  next
    case users
    from calls_etims_user_onload [OF this] show thesis
      by (intro other) (simp_all add: validate_item_mapped_and_registered_def)
  qed
qed

section \<open>How effects arise\<close>

lemma arises_click:
  assumes "arises es b" and "click b d = Some ces" and "e \<in> set ces"
  shows "arises es e"
proof -
  from assms(2,3) have "follows b e"
    by (cases b) (auto intro: follows.intros)
  with assms(1) show ?thesis
    unfolding arises_def by (meson rtranclp.rtrancl_into_rtrancl)
qed

lemma arises_success:
  assumes "arises es c" and "is_call c" and "e \<in> set (callback c r)"
  shows "arises es e"
proof -
  from assms(2,3) have "follows c e"
    by (cases c) (auto intro: follows.intros)
  with assms(1) show ?thesis
    unfolding arises_def by (meson rtranclp.rtrancl_into_rtrancl)
qed

lemma arises_error:
  assumes "arises es c" and "is_call c" and "e \<in> set (error c x)"
  shows "arises es e"
proof -
  from assms(2,3) have "follows c e"
    by (cases c) (auto intro: follows.intros)
  with assms(1) show ?thesis
    unfolding arises_def by (meson rtranclp.rtrancl_into_rtrancl)
qed

lemma call_fields:
  assumes "is_call c"
  shows "c = Call (method_name c) (args c) (freeze c) (freeze_message c) (callback c) (error c)"
  using assms by (cases c) simp_all

section \<open>The concrete page\<close>

lemma saved_purchase_form_effects:
  "etims_registered_purchases_refresh sample_host saved_purchase_form
    \<in> set (handlers sample_host saved_purchase_form)"
  by (simp add: handlers_def)

lemma validation_call_arises:
  "arises (etims_registered_purchases_refresh sample_host saved_purchase_form) validation_call"
  by (rule arises_own)
    (simp add: validation_call_def etims_registered_purchases_refresh_def saved_purchase_form_def Let_def)

lemma validation_call_is_call:
  "is_call validation_call"
  "method_name validation_call = validate_item_mapped_and_registered"
  "args validation_call = JObj [(''items'', sample_items)]"
  by (simp_all add: validation_call_def etims_registered_purchases_refresh_def
      saved_purchase_form_def sample_purchase_doc_def Let_def)

lemma validation_call_callbacks:
  "callback validation_call \<lparr>message = JBool False\<rparr> =
    [Add_custom_button ''Create Items'' ''eTims Actions''
      (\<lambda>d.
        [Call ''kra_etims_frappe.kra_etims_frappe.apis.apis.create_items_from_fetched_registered_purchases''
          (JObj [(''request_data'', JObj
            [(''name'', d ''name''),
             (''company_name'', JStr ''Acme Ltd''),
             (''items'', d ''items'')])])
          False None (\<lambda>response. []) (\<lambda>error. [])])]"
  "error validation_call x = [Msgprint ''Failed to validate items.'']"
  by (simp_all add: validation_call_def etims_registered_purchases_refresh_def
      saved_purchase_form_def sample_host_def Let_def)

lemma create_items_call_eq:
  "create_items_call =
    Call ''kra_etims_frappe.kra_etims_frappe.apis.apis.create_items_from_fetched_registered_purchases''
      (JObj [(''request_data'', JObj
        [(''name'', JStr ''PUR-0001''),
         (''company_name'', JStr ''Acme Ltd''),
         (''items'', sample_items)])])
      False None (\<lambda>response. []) (\<lambda>error. [])"
  by (simp add: create_items_call_def validation_call_callbacks clicked_def
      sample_purchase_doc_def)

lemma create_items_call_arises:
  "arises (etims_registered_purchases_refresh sample_host saved_purchase_form) create_items_call"
proof -
  let ?es = "etims_registered_purchases_refresh sample_host saved_purchase_form"
  let ?b = "Add_custom_button ''Create Items'' ''eTims Actions''
      (\<lambda>d.
        [Call ''kra_etims_frappe.kra_etims_frappe.apis.apis.create_items_from_fetched_registered_purchases''
          (JObj [(''request_data'', JObj
            [(''name'', d ''name''),
             (''company_name'', JStr ''Acme Ltd''),
             (''items'', d ''items'')])])
          False None (\<lambda>response. []) (\<lambda>error. [])])"
  have "arises ?es ?b"
    by (rule arises_success [OF validation_call_arises validation_call_is_call(1),
          of _ "\<lparr>message = JBool False\<rparr>"])
      (simp add: validation_call_callbacks)
  then show ?thesis
    by (rule arises_click [of _ _ sample_purchase_doc "[create_items_call]"])
      (simp_all add: create_items_call_eq sample_purchase_doc_def)
qed

lemma submit_call_eq:
  "submit_call =
    Call ''kra_etims_frappe.kra_etims.apis.apis.save_branch_user_details''
      (JObj [(''request_data'', JObj
        [(''name'', JStr ''USR-0001''),
         (''company_name'', JStr ''Acme Ltd''),
         (''user_id'', JStr ''jane@example.com''),
         (''full_names'', JStr ''Jane Doe''),
         (''branch_id'', JStr ''00''),
         (''registration_id'', JStr ''Administrator''),
         (''modifier_id'', JStr ''jane@example.com'')])])
      True (Some sending_request)
      (\<lambda>response. [Msgprint ''Request queued. Please check in later.''])
      (\<lambda>r. [])"
  by (simp add: submit_call_def clicked_def etims_user_refresh_def saved_user_form_def
      sample_host_def sample_user_doc_def Let_def)

lemma submit_call_arises:
  "arises (etims_user_refresh sample_host saved_user_form) submit_call"
proof -
  let ?es = "etims_user_refresh sample_host saved_user_form"
  have "arises ?es (?es ! 0)"
    by (rule arises_own) (simp add: etims_user_refresh_def saved_user_form_def Let_def)
  then show ?thesis
    by (rule arises_click [of _ _ sample_user_doc "[submit_call]"])
      (simp_all add: submit_call_eq etims_user_refresh_def saved_user_form_def
        sample_host_def sample_user_doc_def Let_def)
qed

lemma stock_movements_call_eq:
  "stock_movements_call =
    Call ''kra_etims_frappe.kra_etims_frappe.apis.apis.perform_stock_movement_search_all_branches''
      (JObj [(''request_data'', JObj [(''company_name'', JStr ''Acme Ltd'')])])
      False None (\<lambda>response. []) (\<lambda>error. [])"
  by (simp add: stock_movements_call_def clicked_def etims_registered_stock_movement_onload_def
      sample_host_def Let_def)

lemma stock_movements_call_arises:
  "arises (etims_registered_stock_movement_onload sample_host) stock_movements_call"
proof -
  let ?es = "etims_registered_stock_movement_onload sample_host"
  have "arises ?es (?es ! 0)"
    by (rule arises_own) (simp add: etims_registered_stock_movement_onload_def Let_def)
  then show ?thesis
    by (rule arises_click [of _ _ no_doc "[stock_movements_call]"])
      (simp_all add: stock_movements_call_eq etims_registered_stock_movement_onload_def
        sample_host_def Let_def)
qed

lemma saved_user_form_effects:
  "etims_user_refresh sample_host saved_user_form \<in> set (handlers sample_host saved_user_form)"
  by (simp add: handlers_def)

lemma stock_movement_list_effects:
  "etims_registered_stock_movement_onload sample_host \<in> set (handlers sample_host new_form)"
  by (simp add: handlers_def)

section \<open>Error and success callbacks\<close>

text \<open>
  C2, as stated, fails. The claim: for every remote call issued by every handler, the
  error callback is empty or holds only a comment and does nothing the user can see.
  On the saved purchase form of the concrete page, the validation call made at refresh
  has an error callback that shows the message \<open>Failed to validate items.\<close>
\<close>

theorem validation_error_is_shown:
  "etims_registered_purchases_refresh sample_host saved_purchase_form
      \<in> set (handlers sample_host saved_purchase_form)
   \<and> arises (etims_registered_purchases_refresh sample_host saved_purchase_form) validation_call
   \<and> is_call validation_call
   \<and> messages (error validation_call JNull) = [''Failed to validate items.'']"
  using saved_purchase_form_effects validation_call_arises validation_call_is_call(1)
  by (simp add: validation_call_callbacks)

text \<open>
  C2, amended. For every remote call that can arise from a handler, the error callback
  performs no action at all, except for the \<open>validate_item_mapped_and_registered\<close> call
  made on refresh of the purchases form, whose error callback shows the one message
  \<open>Failed to validate items.\<close> (translated) and does nothing else.
\<close>

theorem error_callbacks_do_nothing_but_validation:
  assumes "es \<in> set (handlers h frm)"
    and "arises es c"
    and "is_call c"
  shows "error c x =
    (if method_name c = validate_item_mapped_and_registered
     then [Msgprint (translate h ''Failed to validate items.'')]
     else [])"
proof -
  from assms(2) call_fields [OF assms(3)]
  have "arises es (Call (method_name c) (args c) (freeze c) (freeze_message c) (callback c) (error c))"
    by simp
  with assms(1) show ?thesis
  proof (cases rule: arising_call_cases)
    case validation
    then show ?thesis by simp
  next
    case save_details
    then show ?thesis by (simp add: acknowledged_methods_distinct)
  next
    case search_branch
    then show ?thesis by (simp add: acknowledged_methods_distinct)
  next
    case other
    then show ?thesis by simp
  qed
qed

theorem error_callbacks_do_nothing_but_validation_witness:
  "etims_registered_purchases_refresh sample_host saved_purchase_form
      \<in> set (handlers sample_host saved_purchase_form)
   \<and> arises (etims_registered_purchases_refresh sample_host saved_purchase_form) create_items_call
   \<and> is_call create_items_call
   \<and> method_name create_items_call \<noteq> validate_item_mapped_and_registered
   \<and> error create_items_call (JStr ''timeout'') = []"
proof -
  have "is_call create_items_call"
    by (simp add: create_items_call_eq)
  moreover have "method_name create_items_call \<noteq> validate_item_mapped_and_registered"
    by (simp add: create_items_call_eq validate_item_mapped_and_registered_def)
  ultimately show ?thesis
    using error_callbacks_do_nothing_but_validation
      [OF saved_purchase_form_effects create_items_call_arises, of "JStr ''timeout''"]
      saved_purchase_form_effects create_items_call_arises
    by simp
qed

text \<open>
  C3, as stated, fails. The claim: for every remote call issued by every handler, the
  success callback shows a generic "queued" acknowledgment to the user. On the
  stock-movement list of the concrete page, the call of the Get Stock Movements button
  has a success callback that does nothing.
\<close>

theorem stock_movements_success_is_silent:
  "etims_registered_stock_movement_onload sample_host \<in> set (handlers sample_host new_form)
   \<and> arises (etims_registered_stock_movement_onload sample_host) stock_movements_call
   \<and> is_call stock_movements_call
   \<and> callback stock_movements_call \<lparr>message = JStr ''queued''\<rparr> = []"
  using stock_movement_list_effects stock_movements_call_arises
  by (simp add: stock_movements_call_eq)

text \<open>
  C3, amended. For every remote call that can arise from a handler, the success callback
  shows a message to the user only for the \<open>save_branch_user_details\<close> call, namely
  \<open>Request queued. Please check in later.\<close>; for the \<open>search_branch_request\<close> call it
  only writes \<open>Request queued. Please check in later\<close> to the browser console; the
  success callback of every other call shows no message and writes nothing.
\<close>

theorem success_acknowledged_for_two_calls_only:
  assumes "es \<in> set (handlers h frm)"
    and "arises es c"
    and "is_call c"
  shows "messages (callback c r) =
      (if method_name c = ''kra_etims_frappe.kra_etims.apis.apis.save_branch_user_details''
       then [''Request queued. Please check in later.''] else [])
    \<and> console_lines (callback c r) =
      (if method_name c = ''kra_etims_frappe.kra_etims_frappe.apis.apis.search_branch_request''
       then [''Request queued. Please check in later''] else [])"
proof -
  from assms(2) call_fields [OF assms(3)]
  have "arises es (Call (method_name c) (args c) (freeze c) (freeze_message c) (callback c) (error c))"
    by simp
  with assms(1) show ?thesis
  proof (cases rule: arising_call_cases)
    case validation
    then show ?thesis by (simp add: acknowledged_methods_distinct [symmetric])
  next
    case save_details
    then show ?thesis by (simp add: acknowledged_methods_distinct)
  next
    case search_branch
    then show ?thesis by (simp add: acknowledged_methods_distinct)
  next
    case other
    then show ?thesis by simp
  qed
qed

theorem success_acknowledged_for_two_calls_only_witness:
  "etims_user_refresh sample_host saved_user_form \<in> set (handlers sample_host saved_user_form)
   \<and> arises (etims_user_refresh sample_host saved_user_form) submit_call
   \<and> is_call submit_call
   \<and> method_name submit_call = ''kra_etims_frappe.kra_etims.apis.apis.save_branch_user_details''
   \<and> messages (callback submit_call \<lparr>message = JNull\<rparr>) = [''Request queued. Please check in later.'']
   \<and> console_lines (callback submit_call \<lparr>message = JNull\<rparr>) = []"
proof -
  have "is_call submit_call"
    and "method_name submit_call = ''kra_etims_frappe.kra_etims.apis.apis.save_branch_user_details''"
    by (simp_all add: submit_call_eq)
  then show ?thesis
    using success_acknowledged_for_two_calls_only
      [OF saved_user_form_effects submit_call_arises, of "\<lparr>message = JNull\<rparr>"]
      saved_user_form_effects submit_call_arises
    by (simp add: acknowledged_methods_distinct)
qed

section \<open>Fire and forget\<close>

text \<open>
  C10. Every remote call is fire-and-forget: for every remote call that can arise from a
  handler, neither its success callback nor its error callback issues a remote call,
  whatever the response or the error (so the call is never retried, and nothing follows
  it up); the effects of a handler have no operation that cancels a call. The only
  options a call carries besides method, arguments and callbacks are \<open>freeze\<close> and
  \<open>freeze_message\<close>, the blocking overlay.
\<close>

theorem remote_calls_are_fire_and_forget:
  assumes "es \<in> set (handlers h frm)"
    and "arises es c"
    and "is_call c"
  shows "remote_calls (callback c r) = [] \<and> remote_calls (error c x) = []"
proof -
  from assms(2) call_fields [OF assms(3)]
  have "arises es (Call (method_name c) (args c) (freeze c) (freeze_message c) (callback c) (error c))"
    by simp
  with assms(1) show ?thesis
  proof (cases rule: arising_call_cases)
    case validation
    then show ?thesis by simp
  next
    case save_details
    then show ?thesis by simp
  next
    case search_branch
    then show ?thesis by simp
  next
    case other
    then show ?thesis by simp
  qed
qed

theorem remote_calls_are_fire_and_forget_witness:
  "etims_registered_purchases_refresh sample_host saved_purchase_form
      \<in> set (handlers sample_host saved_purchase_form)
   \<and> arises (etims_registered_purchases_refresh sample_host saved_purchase_form) validation_call
   \<and> is_call validation_call
   \<and> custom_buttons (callback validation_call \<lparr>message = JBool False\<rparr>) = [''Create Items'']
   \<and> remote_calls (callback validation_call \<lparr>message = JBool False\<rparr>) = []
   \<and> remote_calls (error validation_call JNull) = []"
  using remote_calls_are_fire_and_forget
    [OF saved_purchase_form_effects validation_call_arises validation_call_is_call(1),
      of "\<lparr>message = JBool False\<rparr>" JNull]
    saved_purchase_form_effects validation_call_arises validation_call_is_call(1)
  by (simp add: validation_call_callbacks)

section \<open>Buttons and the external-interface table\<close>

lemma interface_rows:
  "map_of interface_table ''kra_etims_frappe.kra_etims.apis.apis.save_branch_user_details'' =
    Some [''name'', ''company_name'', ''user_id'', ''full_names'', ''branch_id'',
      ''registration_id'', ''modifier_id'']"
  "map_of interface_table ''kra_etims_frappe.kra_etims.apis.apis.perform_import_item_search_all_branches'' =
    Some [''company_name'']"
  "map_of interface_table ''kra_etims_frappe.kra_etims_frappe.apis.apis.search_branch_request'' =
    Some [''company_name'']"
  "map_of interface_table ''kra_etims_frappe.kra_etims_frappe.apis.apis.create_supplier_from_fetched_registered_purchases'' =
    Some [''name'', ''company_name'', ''supplier_name'', ''supplier_pin'', ''supplier_branch_id'']"
  "map_of interface_table ''kra_etims_frappe.kra_etims_frappe.apis.apis.create_items_from_fetched_registered_purchases'' =
    Some [''name'', ''company_name'', ''items'']"
  "map_of interface_table ''kra_etims_frappe.kra_etims_frappe.apis.apis.create_purchase_invoice_from_request'' =
    Some [''name'', ''company_name'', ''supplier_name'', ''supplier_pin'', ''supplier_branch_id'',
      ''supplier_invoice_no'', ''supplier_invoice_date'', ''items'']"
  "map_of interface_table ''kra_etims_frappe.kra_etims_frappe.apis.apis.perform_purchases_search_all_branches'' =
    Some [''company_name'']"
  "map_of interface_table ''kra_etims_frappe.kra_etims_frappe.apis.apis.create_branch_user'' =
    Some [''company_name'']"
  "map_of interface_table ''kra_etims_frappe.kra_etims_frappe.apis.apis.perform_stock_movement_search_all_branches'' =
    Some [''company_name'']"
  by (simp_all add: interface_table_def validate_item_mapped_and_registered_def)

lemma one_call_custom:
  assumes "map_of interface_table m = Some row"
    and "\<And>d. map fst (kvs d) = row"
  shows "issues_one_call
    (Add_custom_button l g (\<lambda>d. [Call m (JObj [(''request_data'', JObj (kvs d))]) fr fm cb er]))"
  unfolding issues_one_call_def
  using assms by (intro exI [of _ m] exI [of _ row]) simp

lemma one_call_inner:
  assumes "map_of interface_table m = Some row"
    and "map fst kvs = row"
  shows "issues_one_call
    (Add_inner_button l [Call m (JObj [(''request_data'', JObj kvs)]) fr fm cb er])"
  unfolding issues_one_call_def
  using assms by (intro exI [of _ m] exI [of _ row]) simp

lemma buttons_etims_user_refresh:
  assumes "arises (etims_user_refresh h frm) b" and "is_button b"
  shows "issues_one_call b"
  using assms
  by (auto simp add: arises_def etims_user_refresh_def Let_def reach interface_rows
      split: if_splits intro!: one_call_custom)

lemma buttons_etims_registered_purchases_refresh:
  assumes "arises (etims_registered_purchases_refresh h frm) b" and "is_button b"
  shows "issues_one_call b"
  using assms
  by (auto simp add: arises_def etims_registered_purchases_refresh_def Let_def reach
      interface_rows split: if_splits intro!: one_call_custom)

lemma buttons_etims_registered_imported_item_onload:
  assumes "arises (etims_registered_imported_item_onload h) b" and "is_button b"
  shows "issues_one_call b"
  using assms
  by (auto simp add: arises_def etims_registered_imported_item_onload_def Let_def reach
      interface_rows intro!: one_call_inner)

lemma buttons_etims_registered_stock_movement_onload:
  assumes "arises (etims_registered_stock_movement_onload h) b" and "is_button b"
  shows "issues_one_call b"
  using assms
  by (auto simp add: arises_def etims_registered_stock_movement_onload_def Let_def reach
      interface_rows intro!: one_call_inner)

lemma buttons_branch_onload:
  assumes "arises (branch_onload h) b" and "is_button b"
  shows "issues_one_call b"
  using assms
  by (auto simp add: arises_def branch_onload_def Let_def reach interface_rows
      intro!: one_call_inner)

lemma buttons_etims_registered_purchases_onload:
  assumes "arises (etims_registered_purchases_onload h) b" and "is_button b"
  shows "issues_one_call b"
  using assms
  by (auto simp add: arises_def etims_registered_purchases_onload_def Let_def reach
      interface_rows intro!: one_call_inner)

lemma buttons_etims_user_onload:
  assumes "arises (etims_user_onload h) b" and "is_button b"
  shows "issues_one_call b"
  using assms
  by (auto simp add: arises_def etims_user_onload_def Let_def reach interface_rows
      intro!: one_call_inner)

lemma create_items_button_eq:
  "create_items_button =
    Add_custom_button ''Create Items'' ''eTims Actions''
      (\<lambda>d.
        [Call ''kra_etims_frappe.kra_etims_frappe.apis.apis.create_items_from_fetched_registered_purchases''
          (JObj [(''request_data'', JObj
            [(''name'', d ''name''),
             (''company_name'', JStr ''Acme Ltd''),
             (''items'', d ''items'')])])
          False None (\<lambda>response. []) (\<lambda>error. [])])"
  by (simp add: create_items_button_def validation_call_callbacks)

lemma create_items_button_arises:
  "arises (etims_registered_purchases_refresh sample_host saved_purchase_form) create_items_button"
  by (rule arises_success [OF validation_call_arises validation_call_is_call(1),
        of _ "\<lparr>message = JBool False\<rparr>"])
    (simp add: validation_call_callbacks create_items_button_eq)

text \<open>
  C7. For every button added by this code (by a handler itself or by a callback of a call
  it made), a single click issues exactly one remote call, to one endpoint fixed when the
  button is added, and the \<open>request_data\<close> of the call has exactly the fields the
  external-interface table gives for that endpoint; no click issues no call or more than
  one.
\<close>

theorem every_button_issues_one_call:
  assumes "es \<in> set (handlers h frm)"
    and "arises es b"
    and "is_button b"
  shows "issues_one_call b"
proof -
  from assms(1) have "es = etims_user_refresh h frm
      \<or> es = etims_registered_imported_item_onload h
      \<or> es = etims_registered_stock_movement_onload h
      \<or> es = branch_onload h
      \<or> es = etims_registered_purchases_refresh h frm
      \<or> es = etims_registered_purchases_onload h
      \<or> es = etims_user_onload h"
    unfolding handlers_def by simp
  then consider
      (user_form) "arises (etims_user_refresh h frm) b"
    | (imported) "arises (etims_registered_imported_item_onload h) b"
    | (stock) "arises (etims_registered_stock_movement_onload h) b"
    | (branch) "arises (branch_onload h) b"
    | (purchase_form) "arises (etims_registered_purchases_refresh h frm) b"
    | (purchases) "arises (etims_registered_purchases_onload h) b"
    | (users) "arises (etims_user_onload h) b"
    using assms(2) by blast
  then show ?thesis
  proof cases
    case user_form
    then show ?thesis using assms(3) by (rule buttons_etims_user_refresh)
  next
    case imported
    then show ?thesis using assms(3) by (rule buttons_etims_registered_imported_item_onload)
  next
    case stock
    then show ?thesis using assms(3) by (rule buttons_etims_registered_stock_movement_onload)
  next
    case branch
    then show ?thesis using assms(3) by (rule buttons_branch_onload)
  next
    case purchase_form
    then show ?thesis using assms(3) by (rule buttons_etims_registered_purchases_refresh)
  next
    case purchases
    then show ?thesis using assms(3) by (rule buttons_etims_registered_purchases_onload)
  next
    case users
    then show ?thesis using assms(3) by (rule buttons_etims_user_onload)
  qed
qed

theorem every_button_issues_one_call_witness:
  "etims_registered_purchases_refresh sample_host saved_purchase_form
      \<in> set (handlers sample_host saved_purchase_form)
   \<and> arises (etims_registered_purchases_refresh sample_host saved_purchase_form) create_items_button
   \<and> is_button create_items_button
   \<and> issues_one_call create_items_button
   \<and> map_option remote_calls (click create_items_button sample_purchase_doc) =
       Some [(''kra_etims_frappe.kra_etims_frappe.apis.apis.create_items_from_fetched_registered_purchases'',
              JObj [(''request_data'', JObj
                [(''name'', JStr ''PUR-0001''),
                 (''company_name'', JStr ''Acme Ltd''),
                 (''items'', sample_items)])])]
   \<and> map_of interface_table
        ''kra_etims_frappe.kra_etims_frappe.apis.apis.create_items_from_fetched_registered_purchases'' =
       Some [''name'', ''company_name'', ''items'']"
proof -
  have b: "is_button create_items_button"
    by (simp add: create_items_button_eq)
  from every_button_issues_one_call
    [OF saved_purchase_form_effects create_items_button_arises b]
  show ?thesis
    using saved_purchase_form_effects create_items_button_arises b
    by (simp add: create_items_button_eq sample_purchase_doc_def interface_rows)
qed

section \<open>Payloads of the form buttons\<close>

text \<open>
  C4. On a non-new eTims User form the refresh adds one button, Submit Branch User
  Details, and a click on it issues one remote call, to \<open>save_branch_user_details\<close>,
  whose \<open>request_data\<close> has exactly the fields \<open>name\<close>, \<open>company_name\<close>, \<open>user_id\<close>,
  \<open>full_names\<close>, \<open>branch_id\<close>, \<open>registration_id\<close> and \<open>modifier_id\<close>, taken from the
  document's \<open>name\<close>, the system default company, and the document's \<open>system_user\<close>,
  \<open>users_full_names\<close>, \<open>custom_etims_branch_id\<close>, \<open>owner\<close> and \<open>modified_by\<close>.
\<close>

theorem submit_branch_user_details_payload:
  assumes "\<not> is_new frm"
  shows "form_buttons d (etims_user_refresh h frm) =
    [(translate h ''Submit Branch User Details'',
      [(''kra_etims_frappe.kra_etims.apis.apis.save_branch_user_details'',
        JObj [(''request_data'', JObj
          [(''name'', d ''name''),
           (''company_name'', company h),
           (''user_id'', d ''system_user''),
           (''full_names'', d ''users_full_names''),
           (''branch_id'', d ''custom_etims_branch_id''),
           (''registration_id'', d ''owner''),
           (''modifier_id'', d ''modified_by'')])])])]"
  using assms by (simp add: etims_user_refresh_def Let_def)

theorem submit_branch_user_details_payload_witness:
  "\<not> is_new saved_user_form
   \<and> form_buttons sample_user_doc (etims_user_refresh sample_host saved_user_form) =
    [(''Submit Branch User Details'',
      [(''kra_etims_frappe.kra_etims.apis.apis.save_branch_user_details'',
        JObj [(''request_data'', JObj
          [(''name'', JStr ''USR-0001''),
           (''company_name'', JStr ''Acme Ltd''),
           (''user_id'', JStr ''jane@example.com''),
           (''full_names'', JStr ''Jane Doe''),
           (''branch_id'', JStr ''00''),
           (''registration_id'', JStr ''Administrator''),
           (''modifier_id'', JStr ''jane@example.com'')])])])]"
proof -
  have saved: "\<not> is_new saved_user_form"
    by (simp add: saved_user_form_def)
  from submit_branch_user_details_payload [OF saved, of sample_user_doc sample_host] saved
  show ?thesis
    by (simp add: sample_host_def sample_user_doc_def)
qed

text \<open>
  C5. On a non-new eTims Registered Purchases form the refresh adds a button Create
  Purchase Invoice, and a click on it issues one remote call, to
  \<open>create_purchase_invoice_from_request\<close>, whose \<open>request_data\<close> has exactly the fields
  \<open>name\<close>, \<open>company_name\<close>, \<open>supplier_name\<close>, \<open>supplier_pin\<close>, \<open>supplier_branch_id\<close>,
  \<open>supplier_invoice_no\<close>, \<open>supplier_invoice_date\<close> and \<open>items\<close>, with
  \<open>supplier_invoice_no\<close> taken from the document's \<open>supplier_invoice_number\<close> and
  \<open>supplier_invoice_date\<close> from its \<open>sales_date\<close>.
\<close>

theorem create_purchase_invoice_payload:
  assumes "\<not> is_new frm"
  shows "(translate h ''Create Purchase Invoice'',
      [(''kra_etims_frappe.kra_etims_frappe.apis.apis.create_purchase_invoice_from_request'',
        JObj [(''request_data'', JObj
          [(''name'', d ''name''),
           (''company_name'', company h),
           (''supplier_name'', d ''supplier_name''),
           (''supplier_pin'', d ''supplier_pin''),
           (''supplier_branch_id'', d ''supplier_branch_id''),
           (''supplier_invoice_no'', d ''supplier_invoice_number''),
           (''supplier_invoice_date'', d ''sales_date''),
           (''items'', d ''items'')])])])
    \<in> set (form_buttons d (etims_registered_purchases_refresh h frm))"
  using assms by (simp add: etims_registered_purchases_refresh_def Let_def)

theorem create_purchase_invoice_payload_witness:
  "\<not> is_new saved_purchase_form
   \<and> map fst (form_buttons sample_purchase_doc
        (etims_registered_purchases_refresh sample_host saved_purchase_form)) =
      [''Create Supplier'', ''Create Purchase Invoice'']
   \<and> (''Create Purchase Invoice'',
      [(''kra_etims_frappe.kra_etims_frappe.apis.apis.create_purchase_invoice_from_request'',
        JObj [(''request_data'', JObj
          [(''name'', JStr ''PUR-0001''),
           (''company_name'', JStr ''Acme Ltd''),
           (''supplier_name'', JStr ''Bolts Ltd''),
           (''supplier_pin'', JStr ''P000000001A''),
           (''supplier_branch_id'', JStr ''01''),
           (''supplier_invoice_no'', JNum 17),
           (''supplier_invoice_date'', JStr ''2024-05-01''),
           (''items'', sample_items)])])])
    \<in> set (form_buttons sample_purchase_doc
        (etims_registered_purchases_refresh sample_host saved_purchase_form))"
proof -
  have saved: "\<not> is_new saved_purchase_form"
    by (simp add: saved_purchase_form_def)
  have labels: "map fst (form_buttons sample_purchase_doc
        (etims_registered_purchases_refresh sample_host saved_purchase_form)) =
      [''Create Supplier'', ''Create Purchase Invoice'']"
    by (simp add: etims_registered_purchases_refresh_def Let_def saved_purchase_form_def
        sample_host_def)
  from create_purchase_invoice_payload [OF saved, of sample_host sample_purchase_doc] saved labels
  show ?thesis
    by (simp add: sample_host_def sample_purchase_doc_def)
qed

section \<open>Payloads of the list-view buttons\<close>

text \<open>
  C6. Each of the five list-view handlers (imported items, stock movements, branches,
  purchases, branch users) adds exactly one button, and a click on it issues one remote
  call whose \<open>request_data\<close> has exactly one field, \<open>company_name\<close>, holding the system
  default company \<open>frappe.boot.sysdefaults.company\<close>.
\<close>

theorem list_view_buttons_send_company_name:
  assumes "onload \<in> set listview_onloads"
  shows "\<exists>l m. list_buttons (onload h) =
    [(l, [(m, JObj [(''request_data'', JObj [(''company_name'', company h)])])])]"
proof -
  from assms consider
      "onload = etims_registered_imported_item_onload"
    | "onload = etims_registered_stock_movement_onload"
    | "onload = branch_onload"
    | "onload = etims_registered_purchases_onload"
    | "onload = etims_user_onload"
    unfolding listview_onloads_def by auto
  then show ?thesis
  proof cases
    case 1
    then show ?thesis by (simp add: etims_registered_imported_item_onload_def Let_def)
  next
    case 2
    then show ?thesis by (simp add: etims_registered_stock_movement_onload_def Let_def)
  next
    case 3
    then show ?thesis by (simp add: branch_onload_def Let_def)
  next
    case 4
    then show ?thesis by (simp add: etims_registered_purchases_onload_def Let_def)
  next
    case 5
    then show ?thesis by (simp add: etims_user_onload_def Let_def)
  qed
qed

theorem list_view_buttons_send_company_name_witness:
  "branch_onload \<in> set listview_onloads
   \<and> (\<exists>l m. list_buttons (branch_onload sample_host) =
        [(l, [(m, JObj [(''request_data'', JObj [(''company_name'', company sample_host)])])])])
   \<and> list_buttons (branch_onload sample_host) =
        [(''Get Branches'',
          [(''kra_etims_frappe.kra_etims_frappe.apis.apis.search_branch_request'',
            JObj [(''request_data'', JObj [(''company_name'', JStr ''Acme Ltd'')])])])]"
proof -
  have member: "branch_onload \<in> set listview_onloads"
    by (simp add: listview_onloads_def)
  have run: "list_buttons (branch_onload sample_host) =
        [(''Get Branches'',
          [(''kra_etims_frappe.kra_etims_frappe.apis.apis.search_branch_request'',
            JObj [(''request_data'', JObj [(''company_name'', JStr ''Acme Ltd'')])])])]"
    by (simp add: branch_onload_def Let_def sample_host_def)
  from list_view_buttons_send_company_name [OF member, of sample_host] member run
  show ?thesis by blast
qed

section \<open>The Create Items button and new documents\<close>

text \<open>
  C8. On refresh of a non-new eTims Registered Purchases form, one remote call is made,
  to \<open>validate_item_mapped_and_registered\<close> with the document's items; the refresh itself
  adds the Create Supplier and Create Purchase Invoice buttons only. The success callback
  of the validation call adds the Create Items button if and only if the response's
  message is exactly \<open>false\<close>, and adds no other button; if the call errors, the message
  \<open>Failed to validate items.\<close> is shown and nothing else happens, so no button is added.
\<close>

theorem create_items_button_gating:
  assumes "\<not> is_new frm"
  shows "remote_calls (etims_registered_purchases_refresh h frm) =
      [(validate_item_mapped_and_registered, JObj [(''items'', doc frm ''items'')])]
    \<and> custom_buttons (etims_registered_purchases_refresh h frm) =
      [translate h ''Create Supplier'', translate h ''Create Purchase Invoice'']
    \<and> map_option custom_buttons
        (on_success validate_item_mapped_and_registered r (etims_registered_purchases_refresh h frm)) =
      Some (if message r = JBool False then [translate h ''Create Items''] else [])
    \<and> on_error validate_item_mapped_and_registered x (etims_registered_purchases_refresh h frm) =
      Some [Msgprint (translate h ''Failed to validate items.'')]"
  using assms by (simp add: etims_registered_purchases_refresh_def Let_def)

theorem create_items_button_gating_witness:
  "\<not> is_new saved_purchase_form
   \<and> remote_calls (etims_registered_purchases_refresh sample_host saved_purchase_form) =
      [(validate_item_mapped_and_registered, JObj [(''items'', sample_items)])]
   \<and> map_option custom_buttons
        (on_success validate_item_mapped_and_registered \<lparr>message = JBool False\<rparr>
          (etims_registered_purchases_refresh sample_host saved_purchase_form)) =
      Some [''Create Items'']
   \<and> map_option custom_buttons
        (on_success validate_item_mapped_and_registered \<lparr>message = JBool True\<rparr>
          (etims_registered_purchases_refresh sample_host saved_purchase_form)) =
      Some []
   \<and> map_option custom_buttons
        (on_success validate_item_mapped_and_registered \<lparr>message = JNum 0\<rparr>
          (etims_registered_purchases_refresh sample_host saved_purchase_form)) =
      Some []
   \<and> map_option custom_buttons
        (on_success validate_item_mapped_and_registered \<lparr>message = JUndefined\<rparr>
          (etims_registered_purchases_refresh sample_host saved_purchase_form)) =
      Some []
   \<and> on_error validate_item_mapped_and_registered JNull
        (etims_registered_purchases_refresh sample_host saved_purchase_form) =
      Some [Msgprint ''Failed to validate items.'']"
proof -
  have saved: "\<not> is_new saved_purchase_form"
    by (simp add: saved_purchase_form_def)
  have items: "doc saved_purchase_form ''items'' = sample_items"
    by (simp add: saved_purchase_form_def sample_purchase_doc_def)
  have plain: "translate sample_host = id"
    by (simp add: sample_host_def)
  from create_items_button_gating [OF saved, of sample_host "\<lparr>message = JBool False\<rparr>" JNull]
    create_items_button_gating [OF saved, of sample_host "\<lparr>message = JBool True\<rparr>" JNull]
    create_items_button_gating [OF saved, of sample_host "\<lparr>message = JNum 0\<rparr>" JNull]
    create_items_button_gating [OF saved, of sample_host "\<lparr>message = JUndefined\<rparr>" JNull]
    saved
  show ?thesis
    by (simp add: items plain)
qed

text \<open>
  C9. For both form handlers (eTims User and eTims Registered Purchases), nothing is done
  when the document is new: the refresh has no effect at all, so no custom button is
  added and none can arise later, every \<open>add_custom_button\<close> (and the validation call
  whose callback adds one) lying under the check that \<open>frm.is_new()\<close> is false.
\<close>

theorem no_button_on_new_document:
  assumes "refresh \<in> set form_refreshes"
    and "is_new frm"
  shows "refresh h frm = [] \<and> \<not> arises (refresh h frm) (Add_custom_button l g f)"
proof -
  from assms(1) have "refresh = etims_user_refresh \<or> refresh = etims_registered_purchases_refresh"
    by (simp add: form_refreshes_def)
  with assms(2) have "refresh h frm = []"
    by (auto simp add: etims_user_refresh_def etims_registered_purchases_refresh_def Let_def)
  then show ?thesis
    by (simp add: arises_def)
qed

theorem no_button_on_new_document_witness:
  "etims_registered_purchases_refresh \<in> set form_refreshes
   \<and> is_new new_form
   \<and> etims_registered_purchases_refresh sample_host new_form = []
   \<and> custom_buttons (etims_registered_purchases_refresh sample_host new_form) = []
   \<and> custom_buttons (etims_registered_purchases_refresh sample_host saved_purchase_form) =
      [''Create Supplier'', ''Create Purchase Invoice'']"
proof -
  have member: "etims_registered_purchases_refresh \<in> set form_refreshes"
    by (simp add: form_refreshes_def)
  have new: "is_new new_form"
    by (simp add: new_form_def)
  have saved: "custom_buttons (etims_registered_purchases_refresh sample_host saved_purchase_form) =
      [''Create Supplier'', ''Create Purchase Invoice'']"
    by (simp add: etims_registered_purchases_refresh_def Let_def saved_purchase_form_def
        sample_host_def)
  from no_button_on_new_document [OF member new, of sample_host] member new saved
  show ?thesis by simp
qed

end
